theory Spec2Isabelle
  imports Main
begin

section \<open>The cache policy middleware of static.ts\<close>

text \<open>
  The repository is one function, \<open>serveStatic\<close> (static.ts), which installs two handlers
  on an Express application: \<open>express.static\<close> over the build directory, and a
  catch-all fallback that sends \<open>index.html\<close> with headers that forbid caching. The
  fallback's route \<open>"/{*path}"\<close> is written in the pattern syntax of Express 5, so
  Express 5 is the library modelled (router 2, serve-static 2, send 1, finalhandler 2).
  \<open>serveStatic\<close> and its fallback closure are translated from static.ts line by line.
  What they call is library code: \<open>fs.existsSync\<close>, \<open>path.resolve\<close>,
  \<open>express.static\<close> (the serve-static and send packages), \<open>res.setHeader\<close>,
  \<open>res.sendFile\<close>, the router's path matching and its final handler. Each is modelled
  below after the library's own control flow, as far as the middleware exercises it.

  Scope of the model. The filesystem is POSIX, and a path exists in it only below
  directories. A request is its method, its target (path and query string, as the HTTP
  parser hands them over, one character per byte), its headers and its body. How a file's
  validators (entity tag, modification time, length) answer the conditional and range
  headers of a request is not computed: each file carries that answer as a function of the
  request's headers. Of the response headers only those the policy is about are tracked
  (\<open>Cache-Control\<close>, \<open>Pragma\<close>, \<open>Expires\<close>); content type, length, validators,
  \<open>Location\<close> and the like are left out.
\<close>

subsection \<open>Filesystem and paths\<close>

text \<open>
  An absolute, resolved path is the list of its components: \<open>/srv/app/public\<close> is
  \<open>[''srv'', ''app'', ''public'']\<close>. A filesystem maps the paths that exist to what is there.
\<close>

type_synonym fpath = "string list"

text \<open>
  What send makes of a request for a file it has found: the whole file, nothing because
  the client's copy is fresh (304), a refusal because a precondition failed (412), a byte
  range (206), or a refusal because the range cannot be satisfied (416).
\<close>

datatype negotiation =
    Full
  | NotModified
  | PreconditionFailed
  | Partial nat nat
  | Unsatisfiable

text \<open>
  A regular file is its bytes and the answer of its validators to a request's headers
  (names in lower case, as Node gives them).
\<close>

datatype node = File string "(string \<rightharpoonup> string) \<Rightarrow> negotiation" | Dir

type_synonym filesystem = "fpath \<Rightarrow> node option"

text \<open>\<open>fs.existsSync(p)\<close>: true for anything that exists at \<open>p\<close>, file or directory.\<close>

definition existsSync :: "filesystem \<Rightarrow> fpath \<Rightarrow> bool" where
  "existsSync fs p \<longleftrightarrow> fs p \<noteq> None"

text \<open>\<open>path.resolve(base, name)\<close> for an absolute \<open>base\<close> and a plain file name.\<close>

definition path_resolve :: "fpath \<Rightarrow> string \<Rightarrow> fpath" where
  "path_resolve base name = base @ [name]"

text \<open>The text of a path, as the template literal of the error message prints it.\<close>

definition path_string :: "fpath \<Rightarrow> string" where
  "path_string p = (if p = [] then ''/'' else concat (map (\<lambda>c. CHR ''/'' # c) p))"

subsection \<open>Requests, responses, handlers\<close>

record request =
  req_method :: string
  url :: string
  req_headers :: "string \<rightharpoonup> string"
  req_body :: string

text \<open>
  A response body is the bytes of a file or one of the pages the libraries generate:
  serve-static's page for a directory redirect, the final handler's page for an error of
  a given status, and its page for a request no handler answered.
\<close>

datatype content =
    Bytes string
  | RedirectPage string
  | ErrorPage nat
  | CannotPage string string

record response =
  status :: nat
  headers :: "string \<rightharpoonup> string"
  body :: content

definition new_response :: response where
  "new_response = \<lparr>status = 200, headers = Map.empty, body = Bytes []\<rparr>"

definition setHeader :: "string \<Rightarrow> string \<Rightarrow> response \<Rightarrow> response" where
  "setHeader name v res = res\<lparr>headers := (headers res)(name \<mapsto> v)\<rparr>"

definition getHeader :: "response \<Rightarrow> string \<Rightarrow> string option" where
  "getHeader res name = headers res name"

text \<open>An http-errors error: its status and, when a system call failed, its code.\<close>

datatype http_error = HttpError nat "string option"

text \<open>
  A handler ends the response, or calls \<open>next()\<close>, or calls \<open>next(err)\<close>; the response
  object, with whatever was set on it, goes on to whoever comes next.
\<close>

datatype outcome =
    Responded response
  | Next response
  | NextError http_error response

type_synonym handler = "filesystem \<Rightarrow> request \<Rightarrow> response \<Rightarrow> outcome"

subsection \<open>The request target\<close>

text \<open>
  \<open>parseurl(req).pathname\<close>. A target that starts with a slash and has none of the
  characters tab, line feed, form feed, carriage return, space, \<open>#\<close>, \<open>;\<close> and
  no-break space is cut at its first \<open>?\<close>. Any other target goes to Node's legacy
  parser, which turns the backslashes before the query string into slashes and cuts at
  the first \<open>?\<close> or \<open>#\<close>. (The legacy parser is modelled for targets in origin form
  only: it does more to a target that names a host.)
\<close>

definition legacy_parse :: "string \<Rightarrow> bool" where
  "legacy_parse u \<longleftrightarrow>
     (case u of
        [] \<Rightarrow> True
      | c # cs \<Rightarrow>
          c \<noteq> CHR ''/'' \<or>
          list_ex (\<lambda>x. x \<in> set [CHR 0x09, CHR 0x0A, CHR 0x0C, CHR 0x0D, CHR '' '',
                                  CHR ''#'', CHR '';'', CHR 0xA0]) cs)"

definition pathname :: "string \<Rightarrow> string" where
  "pathname u =
     (if legacy_parse u
      then map (\<lambda>c. if c = CHR 0x5C then CHR ''/'' else c)
             (takeWhile (\<lambda>c. c \<noteq> CHR ''?'' \<and> c \<noteq> CHR ''#'') u)
      else takeWhile (\<lambda>c. c \<noteq> CHR ''?'') u)"

text \<open>
  \<open>decodeURIComponent\<close>, read as bytes. An escape is \<open>%\<close> and two hexadecimal digits;
  the escaped bytes must be well-formed UTF-8, each sequence written as escapes from
  its first byte to its last. A character written as itself stays; above 127 it is a
  Latin-1 character of the target string and comes to its two UTF-8 bytes when the path
  is handed to the filesystem.
\<close>

definition hex_value :: "char \<Rightarrow> nat option" where
  "hex_value c =
     map_of [(CHR ''0'', 0), (CHR ''1'', 1), (CHR ''2'', 2), (CHR ''3'', 3), (CHR ''4'', 4),
             (CHR ''5'', 5), (CHR ''6'', 6), (CHR ''7'', 7), (CHR ''8'', 8), (CHR ''9'', 9),
             (CHR ''a'', 10), (CHR ''b'', 11), (CHR ''c'', 12), (CHR ''d'', 13),
             (CHR ''e'', 14), (CHR ''f'', 15), (CHR ''A'', 10), (CHR ''B'', 11),
             (CHR ''C'', 12), (CHR ''D'', 13), (CHR ''E'', 14), (CHR ''F'', 15)] c"

definition byte_of_hex :: "nat \<Rightarrow> nat \<Rightarrow> char" where
  "byte_of_hex hi lo =
     Char (odd lo) (odd (lo div 2)) (odd (lo div 4)) (odd (lo div 8))
          (odd hi) (odd (hi div 2)) (odd (hi div 4)) (odd (hi div 8))"

datatype item = Literal char | Escaped char

fun unescape :: "string \<Rightarrow> item list option" where
  "unescape [] = Some []"
| "unescape (c # cs) =
     (if c = CHR ''%'' then
        (case cs of
           a # b # rest \<Rightarrow>
             (case (hex_value a, hex_value b) of
                (Some hi, Some lo) \<Rightarrow>
                  map_option (\<lambda>is. Escaped (byte_of_hex hi lo) # is) (unescape rest)
              | _ \<Rightarrow> None)
         | _ \<Rightarrow> None)
      else map_option (\<lambda>is. Literal c # is) (unescape cs))"

definition continuation :: "char \<Rightarrow> bool" where
  "continuation c \<longleftrightarrow> 128 \<le> (of_char c :: nat) \<and> (of_char c :: nat) < 192"

definition utf8_of_latin1 :: "char \<Rightarrow> string" where
  "utf8_of_latin1 c =
     (case c of Char b0 b1 b2 b3 b4 b5 b6 b7 \<Rightarrow>
        [Char b6 b7 False False False False True True,
         Char b0 b1 b2 b3 b4 b5 False True])"

fun utf8_items :: "item list \<Rightarrow> string option" where
  "utf8_items [] = Some []"
| "utf8_items (Literal c # is) =
     map_option (\<lambda>s. (if (of_char c :: nat) < 128 then [c] else utf8_of_latin1 c) @ s)
       (utf8_items is)"
| "utf8_items (Escaped c # is) =
     (let n = (of_char c :: nat) in
      if n < 128 then map_option (\<lambda>s. c # s) (utf8_items is)
      else if 194 \<le> n \<and> n < 224 then
        (case is of
           Escaped c2 # r \<Rightarrow>
             if continuation c2 then map_option (\<lambda>s. c # c2 # s) (utf8_items r) else None
         | _ \<Rightarrow> None)
      else if 224 \<le> n \<and> n < 240 then
        (case is of
           Escaped c2 # Escaped c3 # r \<Rightarrow>
             if continuation c2 \<and> continuation c3
                \<and> (if n = 224 then 160 \<le> (of_char c2 :: nat) else True)
                \<and> (if n = 237 then (of_char c2 :: nat) < 160 else True)
             then map_option (\<lambda>s. c # c2 # c3 # s) (utf8_items r) else None
         | _ \<Rightarrow> None)
      else if 240 \<le> n \<and> n < 245 then
        (case is of
           Escaped c2 # Escaped c3 # Escaped c4 # r \<Rightarrow>
             if continuation c2 \<and> continuation c3 \<and> continuation c4
                \<and> (if n = 240 then 144 \<le> (of_char c2 :: nat) else True)
                \<and> (if n = 244 then (of_char c2 :: nat) < 144 else True)
             then map_option (\<lambda>s. c # c2 # c3 # c4 # s) (utf8_items r) else None
         | _ \<Rightarrow> None)
      else None)"

definition decode :: "string \<Rightarrow> string option" where
  "decode s = Option.bind (unescape s) utf8_items"

subsection \<open>The send package\<close>

record send_options =
  maxAge :: nat
  immutable :: bool
  index :: "string list"

text \<open>\<open>ms("1y")\<close>: a year is 365.25 days, in milliseconds.\<close>

definition ms_y :: nat where
  "ms_y = 1000 * 60 * 60 * 24 * 36525 div 100"

definition MAX_MAXAGE :: nat where
  "MAX_MAXAGE = 60 * 60 * 24 * 365 * 1000"

text \<open>A non-negative integer in decimal, as string concatenation prints a number.\<close>

definition digit :: "nat \<Rightarrow> char" where
  "digit d = ''0123456789'' ! d"

function show_nat :: "nat \<Rightarrow> string" where
  "show_nat n = (if n < 10 then [digit n]
                 else show_nat (n div 10) @ [digit (n mod 10)])"
  by pat_completeness auto
termination
  by (relation "measure (\<lambda>n. n)") auto

declare show_nat.simps [simp del]

text \<open>
  The value send gives \<open>Cache-Control\<close>: \<open>'public, max-age=' + Math.floor(maxage / 1000)\<close>,
  with the max age capped at one year of 365 days, then \<open>', immutable'\<close> when asked.
\<close>

definition cache_control_value :: "send_options \<Rightarrow> string" where
  "cache_control_value opts =
     ''public, max-age='' @ show_nat (min (maxAge opts) MAX_MAXAGE div 1000)
       @ (if immutable opts then '', immutable'' else [])"

text \<open>
  What ends a send stream: the file was sent (or answered with 304 or 206), the path is a
  directory, an error arose before a file was found (the response is untouched), or an
  error arose after the file was found and its headers were set.
\<close>

datatype send_result =
    SendFile response
  | SendDirectory
  | SendError http_error
  | SendFileError http_error response

definition isConditionalGET :: "request \<Rightarrow> bool" where
  "isConditionalGET req \<longleftrightarrow>
     list_ex (\<lambda>name. req_headers req name \<noteq> None)
       [''if-match'', ''if-unmodified-since'', ''if-none-match'', ''if-modified-since'']"

definition isCachable :: "response \<Rightarrow> bool" where
  "isCachable res \<longleftrightarrow> (200 \<le> status res \<and> status res < 300) \<or> status res = 304"

text \<open>
  The file's validators are asked only when the request is conditional or has a
  \<open>Range\<close> header; any other request gets the whole file.
\<close>

definition negotiate :: "request \<Rightarrow> ((string \<rightharpoonup> string) \<Rightarrow> negotiation) \<Rightarrow> negotiation" where
  "negotiate req validators =
     (if isConditionalGET req \<or> req_headers req ''range'' \<noteq> None
      then validators (req_headers req) else Full)"

text \<open>
  \<open>SendStream.send\<close>, once the file is found. The headers come first: \<open>Cache-Control\<close>
  is set unless the response already has one. Then the preconditions (412), freshness
  (304, when the status so far allows caching), the range (416, or 206 with that part of
  the file), and the body, which a HEAD request does not get.
\<close>

definition send_file ::
  "send_options \<Rightarrow> request \<Rightarrow> response \<Rightarrow> string
     \<Rightarrow> ((string \<rightharpoonup> string) \<Rightarrow> negotiation) \<Rightarrow> send_result" where
  "send_file opts req res bytes validators =
     (let res1 = (if getHeader res ''Cache-Control'' = None
                  then setHeader ''Cache-Control'' (cache_control_value opts) res
                  else res);
          whole = res1\<lparr>body := (if req_method req = ''HEAD'' then Bytes [] else Bytes bytes)\<rparr>
      in case negotiate req validators of
           Full \<Rightarrow> SendFile whole
         | NotModified \<Rightarrow>
             if isCachable res1 then SendFile (res1\<lparr>status := 304, body := Bytes []\<rparr>)
             else SendFile whole
         | PreconditionFailed \<Rightarrow> SendFileError (HttpError 412 None) res1
         | Partial first final \<Rightarrow>
             SendFile (res1\<lparr>status := 206,
                            body := (if req_method req = ''HEAD'' then Bytes []
                                     else Bytes (take (final + 1 - first) (drop first bytes)))\<rparr>)
         | Unsatisfiable \<Rightarrow> SendFileError (HttpError 416 None) res1)"

text \<open>\<open>String.prototype.split\<close> on one separator character.\<close>

fun split_on :: "char \<Rightarrow> string \<Rightarrow> string list" where
  "split_on sep [] = [[]]"
| "split_on sep (c # cs) =
     (if c = sep then [] # split_on sep cs
      else (case split_on sep cs of [] \<Rightarrow> [[c]] | p # ps \<Rightarrow> (c # p) # ps))"

text \<open>
  \<open>normalizeString\<close> of Node's path module for a relative path: empty and \<open>.\<close> segments
  go, \<open>..\<close> removes the segment before it, or stays when there is none to remove.
\<close>

fun normalizeString :: "string list \<Rightarrow> string list \<Rightarrow> string list" where
  "normalizeString acc [] = acc"
| "normalizeString acc (s # ss) =
     (if s = [] \<or> s = ''.'' then normalizeString acc ss
      else if s = ''..'' then
        (if acc \<noteq> [] \<and> last acc \<noteq> ''..'' then normalizeString (butlast acc) ss
         else normalizeString (acc @ [''..'']) ss)
      else normalizeString (acc @ [s]) ss)"

text \<open>The segments of \<open>normalize('.' + sep + path)\<close>.\<close>

definition normalize_relative :: "string \<Rightarrow> string list" where
  "normalize_relative p = normalizeString [] (split_on CHR ''/'' (''./'' @ p))"

definition hasTrailingSlash :: "string \<Rightarrow> bool" where
  "hasTrailingSlash p \<longleftrightarrow> p \<noteq> [] \<and> last p = CHR ''/''"

text \<open>
  \<open>UP_PATH_REGEXP\<close> on the normalised path: a \<open>..\<close> between separators, where the
  expression takes the backslash for a separator too.
\<close>

definition up_path :: "string list \<Rightarrow> bool" where
  "up_path parts \<longleftrightarrow> list_ex (\<lambda>part. ''..'' \<in> set (split_on (CHR 0x5C) part)) parts"

definition containsDotFile :: "string list \<Rightarrow> bool" where
  "containsDotFile parts \<longleftrightarrow> list_ex (\<lambda>part. 1 < length part \<and> hd part = CHR ''.'') parts"

text \<open>
  The first steps of \<open>SendStream.pipe\<close> with a root: the path is decoded (400 when that
  fails or leaves a NUL), normalised, refused with 403 when it climbs out of the root and
  with 404 when a segment is a dotfile (\<open>dotfiles\<close> is left at \<open>'ignore'\<close>).
\<close>

definition send_path :: "string \<Rightarrow> http_error + string list" where
  "send_path p =
     (case decode p of
        None \<Rightarrow> Inl (HttpError 400 None)
      | Some d \<Rightarrow>
          if CHR 0x00 \<in> set d then Inl (HttpError 400 None)
          else (let parts = normalize_relative d in
                if up_path parts then Inl (HttpError 403 None)
                else if containsDotFile parts then Inl (HttpError 404 None)
                else Inr parts))"

text \<open>
  Whether the path send hands to \<open>stat\<close> ends in a separator: the decoded path does
  (normalisation keeps a trailing separator). This is not \<open>hasTrailingSlash\<close>, which
  looks at the path as it was requested.
\<close>

definition ends_with_sep :: "string \<Rightarrow> bool" where
  "ends_with_sep p \<longleftrightarrow> (case decode p of None \<Rightarrow> False | Some d \<Rightarrow> hasTrailingSlash d)"

text \<open>Whether a path lies below a regular file: then \<open>stat\<close> fails with \<open>ENOTDIR\<close>.\<close>

fun under_file :: "filesystem \<Rightarrow> fpath \<Rightarrow> fpath \<Rightarrow> bool" where
  "under_file fs pre [] = False"
| "under_file fs pre (c # cs) =
     ((case fs pre of Some (File bytes validators) \<Rightarrow> True | _ \<Rightarrow> False)
      \<or> under_file fs (pre @ [c]) cs)"

text \<open>
  \<open>SendStream.sendFile\<close>: stat the path. A path that ends in a separator names a
  directory or nothing (\<open>trailing\<close> says whether it does); a missing path is a 404
  error.
\<close>

definition send_sendFile ::
  "send_options \<Rightarrow> filesystem \<Rightarrow> request \<Rightarrow> response \<Rightarrow> fpath \<Rightarrow> bool \<Rightarrow> send_result" where
  "send_sendFile opts fs req res p trailing =
     (case fs p of
        None \<Rightarrow>
          SendError (HttpError 404
            (Some (if under_file fs [] p then ''ENOTDIR'' else ''ENOENT'')))
      | Some Dir \<Rightarrow> SendDirectory
      | Some (File bytes validators) \<Rightarrow>
          if trailing then SendError (HttpError 404 (Some ''ENOTDIR''))
          else send_file opts req res bytes validators)"

text \<open>\<open>SendStream.sendIndex\<close>: the first index name that is a file under the directory.\<close>

fun send_sendIndex ::
  "send_options \<Rightarrow> filesystem \<Rightarrow> request \<Rightarrow> response \<Rightarrow> fpath \<Rightarrow> string list \<Rightarrow> send_result" where
  "send_sendIndex opts fs req res p [] = SendError (HttpError 404 None)"
| "send_sendIndex opts fs req res p (i # is) =
     (case fs (p @ [i]) of
        Some (File bytes validators) \<Rightarrow> send_file opts req res bytes validators
      | _ \<Rightarrow> send_sendIndex opts fs req res p is)"

text \<open>
  \<open>SendStream.pipe\<close> with a root (as serve-static calls it): the path, then the index
  when one is configured and the path ends in a slash, else the file.
\<close>

definition send_root ::
  "send_options \<Rightarrow> fpath \<Rightarrow> filesystem \<Rightarrow> request \<Rightarrow> response \<Rightarrow> string \<Rightarrow> send_result" where
  "send_root opts root fs req res p =
     (case send_path p of
        Inl e \<Rightarrow> SendError e
      | Inr parts \<Rightarrow>
          if index opts \<noteq> [] \<and> hasTrailingSlash p
          then send_sendIndex opts fs req res (root @ parts) (index opts)
          else send_sendFile opts fs req res (root @ parts) (ends_with_sep p))"

text \<open>
  \<open>SendStream.pipe\<close> without a root (as \<open>res.sendFile\<close> calls it with an absolute path):
  the dotfile test runs over every component of the absolute path.
\<close>

definition send_absolute ::
  "send_options \<Rightarrow> filesystem \<Rightarrow> request \<Rightarrow> response \<Rightarrow> fpath \<Rightarrow> send_result" where
  "send_absolute opts fs req res p =
     (if containsDotFile p then SendError (HttpError 404 None)
      else send_sendFile opts fs req res p False)"

subsection \<open>express.static (the serve-static package)\<close>

definition collapseLeadingSlashes :: "string \<Rightarrow> string" where
  "collapseLeadingSlashes s =
     (let r = dropWhile (\<lambda>c. c = CHR ''/'') s in
      if 1 < length s - length r then CHR ''/'' # r else s)"

text \<open>
  The redirect serve-static sends for a directory named without its trailing slash:
  301 to the same path with the slash appended. The page is kept as the path it points
  to; the query string and the encoding of the target are not tracked.
\<close>

definition redirect_response :: "request \<Rightarrow> response \<Rightarrow> response" where
  "redirect_response req res =
     res\<lparr>status := 301,
         body := RedirectPage (collapseLeadingSlashes (pathname (url req) @ ''/''))\<rparr>"

text \<open>
  The middleware \<open>express.static(root, options)\<close> returns, with \<open>fallthrough\<close> and
  \<open>redirect\<close> at their defaults. Methods other than GET and HEAD go to \<open>next()\<close>
  untouched. A directory is redirected to, unless the requested path already ends in a
  slash, which is a 404. An error before a file was found is dropped when below 500 and the
  request passed on; an error after the file was found is forwarded.
\<close>

definition express_static :: "fpath \<Rightarrow> send_options \<Rightarrow> handler" where
  "express_static root opts fs req res =
     (if req_method req \<noteq> ''GET'' \<and> req_method req \<noteq> ''HEAD'' then Next res
      else
        (case send_root opts root fs req res (pathname (url req)) of
           SendFile r \<Rightarrow> Responded r
         | SendDirectory \<Rightarrow>
             if hasTrailingSlash (pathname (url req)) then Next res
             else Responded (redirect_response req res)
         | SendError (HttpError st c) \<Rightarrow>
             if st < 500 then Next res else NextError (HttpError st c) res
         | SendFileError e r \<Rightarrow> NextError e r))"

subsection \<open>res.sendFile\<close>

text \<open>
  \<open>res.sendFile(path)\<close> with no options and no callback: send's defaults (max age 0,
  index \<open>index.html\<close>), the method is not looked at, a directory becomes \<open>next()\<close> and
  any other failure \<open>next(err)\<close>.
\<close>

definition sendFile_options :: send_options where
  "sendFile_options = \<lparr>maxAge = 0, immutable = False, index = [''index.html'']\<rparr>"

definition res_sendFile :: "fpath \<Rightarrow> handler" where
  "res_sendFile p fs req res =
     (case send_absolute sendFile_options fs req res p of
        SendFile r \<Rightarrow> Responded r
      | SendDirectory \<Rightarrow> Next res
      | SendError e \<Rightarrow> NextError e res
      | SendFileError e r \<Rightarrow> NextError e r)"

subsection \<open>The router\<close>

text \<open>
  A route pattern of path-to-regexp 8, parsed: literal text, a wildcard \<open>*name\<close> (one or
  more characters of any kind), and a group \<open>{...}\<close> (optional). The source's pattern
  \<open>"/{*path}"\<close> is \<open>[Text ''/'', Group [Wildcard ''path'']]\<close>; a handler installed with no
  path has the pattern \<open>"/"\<close>.
\<close>

datatype token = Text string | Wildcard string | Group "token list"

text \<open>What is left of the path after each way of consuming one or more characters.\<close>

fun rests :: "string \<Rightarrow> string list" where
  "rests [] = []"
| "rests (c # cs) = cs # rests cs"

text \<open>What is left of the path after each way the tokens can match a prefix of it.\<close>

fun match_token :: "token \<Rightarrow> string \<Rightarrow> string list"
  and match_tokens :: "token list \<Rightarrow> string \<Rightarrow> string list" where
  "match_token (Text t) s = (if take (length t) s = t then [drop (length t) s] else [])"
| "match_token (Wildcard n) s = rests s"
| "match_token (Group ts) s = match_tokens ts s @ [s]"
| "match_tokens [] s = [s]"
| "match_tokens (t # ts) s = concat (map (match_tokens ts) (match_token t s))"

text \<open>
  A layer of \<open>app.use\<close> matches a prefix of the path (\<open>end: false\<close>): after the pattern
  the path ends or goes on with a slash. The pattern \<open>"/"\<close> matches every path.
\<close>

definition route_matches :: "token list \<Rightarrow> string \<Rightarrow> bool" where
  "route_matches pat p \<longleftrightarrow>
     pat = [Text ''/''] \<or> list_ex (\<lambda>r. r = [] \<or> hd r = CHR ''/'') (match_tokens pat p)"

record layer =
  route :: "token list"
  handle :: handler

text \<open>
  The final handler, for a request no layer answered (404) and for an error passed to
  \<open>next\<close> (the error's status). It keeps the headers already on the response; a HEAD
  request gets no body.
\<close>

definition finalhandler :: "http_error option \<Rightarrow> request \<Rightarrow> response \<Rightarrow> response" where
  "finalhandler err req res =
     (let st = (case err of None \<Rightarrow> 404 | Some (HttpError s c) \<Rightarrow> s);
          page = (case err of None \<Rightarrow> CannotPage (req_method req) (url req)
                  | Some (HttpError s c) \<Rightarrow> ErrorPage s)
      in res\<lparr>status := st,
              body := (if req_method req = ''HEAD'' then Bytes [] else page)\<rparr>)"

text \<open>
  The layers run in the order they were installed; each gets the response as the ones
  before it left it. None of the layers is an error handler, so an error goes straight
  to the final handler.
\<close>

fun router_handle :: "layer list \<Rightarrow> filesystem \<Rightarrow> request \<Rightarrow> response \<Rightarrow> response" where
  "router_handle [] fs req res = finalhandler None req res"
| "router_handle (l # ls) fs req res =
     (if route_matches (route l) (url req) then
        (case handle l fs req res of
           Responded r \<Rightarrow> r
         | Next r \<Rightarrow> router_handle ls fs req r
         | NextError e r \<Rightarrow> finalhandler (Some e) req r)
      else router_handle ls fs req res)"

definition app_handle :: "layer list \<Rightarrow> filesystem \<Rightarrow> request \<Rightarrow> response" where
  "app_handle app fs req = router_handle app fs req new_response"


subsection \<open>static.ts\<close>

text \<open>
  The fallback closure of lines 24 to 29: three \<open>setHeader\<close> calls, then \<open>res.sendFile\<close>
  of \<open>index.html\<close> under the build directory.
\<close>

definition spa_fallback :: "fpath \<Rightarrow> handler" where
  "spa_fallback distPath fs req res =
     (let res1 = setHeader ''Cache-Control'' ''no-cache, no-store, must-revalidate'' res;
          res2 = setHeader ''Pragma'' ''no-cache'' res1;
          res3 = setHeader ''Expires'' ''0'' res2
      in res_sendFile (path_resolve distPath ''index.html'') fs req res3)"

datatype error = Error string

text \<open>
  \<open>serveStatic(app)\<close>. The application is its stack of layers, which \<open>app.use\<close> extends
  at the end; \<open>dirname\<close> is the module's \<open>__dirname\<close>. The result is what the call threw,
  if it threw, and the stack it left.
\<close>

definition serveStatic ::
  "filesystem \<Rightarrow> fpath \<Rightarrow> layer list \<Rightarrow> (error + unit) \<times> layer list" where
  "serveStatic fs dirname app =
     (let distPath = path_resolve dirname ''public'' in
      if \<not> existsSync fs distPath then
        (Inl (Error (''Could not find the build directory: '' @ path_string distPath
                      @ '', make sure to build the client first'')), app)
      else
        (Inr (),
         app @
         [\<lparr>route = [Text ''/''],
           handle = express_static distPath
                      \<lparr>maxAge = ms_y, immutable = True, index = []\<rparr>\<rparr>,
          \<lparr>route = [Text ''/'', Group [Wildcard ''path'']],
           handle = spa_fallback distPath\<rparr>]))"

subsection \<open>Notions used to state the properties\<close>

text \<open>The response as the three \<open>setHeader\<close> calls of the fallback leave it.\<close>

definition no_cache :: "response \<Rightarrow> response" where
  "no_cache res =
     setHeader ''Expires'' ''0''
       (setHeader ''Pragma'' ''no-cache''
          (setHeader ''Cache-Control'' ''no-cache, no-store, must-revalidate'' res))"

text \<open>The response object as a handler left it, however the handler ended.\<close>

definition response_of :: "outcome \<Rightarrow> response" where
  "response_of out = (case out of Responded r \<Rightarrow> r | Next r \<Rightarrow> r | NextError e r \<Rightarrow> r)"

subsection \<open>Example data\<close>

text \<open>
  Validators that know one entity tag: \<open>If-Match\<close> with another tag fails the
  precondition, \<open>If-None-Match\<close> with this tag finds the client's copy fresh.
\<close>

definition etag_validators :: "string \<Rightarrow> (string \<rightharpoonup> string) \<Rightarrow> negotiation" where
  "etag_validators tag hs =
     (if hs ''if-match'' \<noteq> None \<and> hs ''if-match'' \<noteq> Some tag then PreconditionFailed
      else if hs ''if-none-match'' = Some tag then NotModified
      else Full)"

text \<open>
  A build directory \<open>/srv/public\<close> with the entry document and one hashed asset, the
  application \<open>serveStatic\<close> makes of an empty one there, and a request with no headers
  and no body.
\<close>

definition example_fs :: filesystem where
  "example_fs =
     [[''srv'', ''public''] \<mapsto> Dir,
      [''srv'', ''public'', ''index.html'']
         \<mapsto> File ''<html>app</html>'' (etag_validators ''v1''),
      [''srv'', ''public'', ''assets''] \<mapsto> Dir,
      [''srv'', ''public'', ''assets'', ''app-3f2a1b.js'']
         \<mapsto> File ''console.log(1)'' (etag_validators ''3f2a1b'')]"

definition example_app :: "layer list" where
  "example_app = snd (serveStatic example_fs [''srv''] [])"

definition request_of :: "string \<Rightarrow> string \<Rightarrow> request" where
  "request_of m u = \<lparr>req_method = m, url = u, req_headers = Map.empty, req_body = []\<rparr>"




section \<open>Lemmas about the library model\<close>

lemmas model_defs =
  serveStatic_def existsSync_def path_resolve_def path_string_def app_handle_def
  route_matches_def express_static_def send_root_def send_path_def decode_def
  hex_value_def byte_of_hex_def continuation_def utf8_of_latin1_def pathname_def
  legacy_parse_def normalize_relative_def up_path_def ends_with_sep_def
  containsDotFile_def hasTrailingSlash_def send_sendFile_def send_file_def negotiate_def
  isConditionalGET_def isCachable_def getHeader_def
  setHeader_def new_response_def cache_control_value_def ms_y_def MAX_MAXAGE_def
  spa_fallback_def res_sendFile_def send_absolute_def sendFile_options_def finalhandler_def
  redirect_response_def collapseLeadingSlashes_def Let_def

lemmas example_defs = example_app_def example_fs_def request_of_def etag_validators_def

subsection \<open>The value of Cache-Control\<close>

lemma show_nat_year: "show_nat 31536000 = ''31536000''"
  by (simp add: show_nat.simps digit_def)


subsection \<open>Route patterns\<close>







subsection \<open>What send does with a file it has found\<close>

text \<open>The headers are set whatever the validators answer.\<close>

lemma send_file_headers:
  "(\<exists>r. send_file opts req res bytes validators = SendFile r
        \<and> headers r = (if headers res ''Cache-Control'' = None
                        then (headers res)(''Cache-Control'' \<mapsto> cache_control_value opts)
                        else headers res))
   \<or> (\<exists>e r. send_file opts req res bytes validators = SendFileError e r
        \<and> (e = HttpError 412 None \<or> e = HttpError 416 None)
        \<and> (isConditionalGET req \<or> req_headers req ''range'' \<noteq> None)
        \<and> headers r = (if headers res ''Cache-Control'' = None
                        then (headers res)(''Cache-Control'' \<mapsto> cache_control_value opts)
                        else headers res))"
  by (cases "negotiate req validators")
    (auto simp: send_file_def getHeader_def setHeader_def Let_def negotiate_def
          split: if_splits)





subsection \<open>What the asset handler does with a request\<close>








subsection \<open>What the fallback does with a request\<close>

lemma headers_no_cache:
  "headers (no_cache res) =
     (headers res)(''Cache-Control'' \<mapsto> ''no-cache, no-store, must-revalidate'',
                   ''Pragma'' \<mapsto> ''no-cache'', ''Expires'' \<mapsto> ''0'')"
  by (simp add: no_cache_def setHeader_def)

lemma status_no_cache: "status (no_cache res) = status res"
  by (simp add: no_cache_def setHeader_def)

lemma fallback_no_cache:
  "spa_fallback distPath fs req res =
     res_sendFile (path_resolve distPath ''index.html'') fs req (no_cache res)"
  by (simp add: spa_fallback_def no_cache_def Let_def)


text \<open>The fallback's own \<open>Cache-Control\<close> stands: send does not replace a header that is set.\<close>

lemma spa_fallback_file:
  assumes "fs (path_resolve distPath ''index.html'') = Some (File bytes validators)"
    and "\<not> containsDotFile (path_resolve distPath ''index.html'')"
  shows "(\<exists>r. spa_fallback distPath fs req res = Responded r
            \<and> headers r = headers (no_cache res))
       \<or> (\<exists>e r. spa_fallback distPath fs req res = NextError e r
            \<and> (isConditionalGET req \<or> req_headers req ''range'' \<noteq> None)
            \<and> headers r = headers (no_cache res))"
  using assms send_file_headers [of sendFile_options req "no_cache res" bytes validators]
  by (auto simp: fallback_no_cache res_sendFile_def send_absolute_def send_sendFile_def
        headers_no_cache)


lemma spa_fallback_missing:
  assumes "fs (path_resolve distPath ''index.html'') = None"
  shows "\<exists>c. spa_fallback distPath fs req res = NextError (HttpError 404 c) (no_cache res)"
  using assms
  by (simp add: fallback_no_cache res_sendFile_def send_absolute_def send_sendFile_def)




lemma headers_finalhandler: "headers (finalhandler err req res) = headers res"
  by (simp add: finalhandler_def Let_def)


subsection \<open>The installed pipeline\<close>




lemma spa_fallback_response_headers:
  "headers (response_of (spa_fallback distPath fs req res)) = headers (no_cache res)"
proof (cases "containsDotFile (path_resolve distPath ''index.html'')")
  case True
  then show ?thesis
    by (simp add: fallback_no_cache res_sendFile_def send_absolute_def response_of_def)
next
  case False
  show ?thesis
  proof (cases "fs (path_resolve distPath ''index.html'')")
    case None
    with spa_fallback_missing [of fs distPath req res] show ?thesis
      by (auto simp: response_of_def)
  next
    case (Some n)
    show ?thesis
    proof (cases n)
      case (File bytes validators)
      with Some False spa_fallback_file [of fs distPath bytes validators req res]
      show ?thesis by (auto simp: response_of_def)
    next
      case Dir
      with Some False show ?thesis
        by (simp add: fallback_no_cache res_sendFile_def send_absolute_def
              send_sendFile_def response_of_def)
    qed
  qed
qed



section \<open>Installation\<close>

text \<open>
  C4. When nothing exists at the build directory path, \<open>serveStatic\<close> throws an error
  whose message spells out that path, and the application's stack is as it was: no
  handler has been installed. When something exists there, the call does not throw.
\<close>

theorem serveStatic_existence_check:
  "(fs (path_resolve dirname ''public'') = None \<longrightarrow>
      serveStatic fs dirname app =
        (Inl (Error (''Could not find the build directory: ''
                      @ path_string (path_resolve dirname ''public'')
                      @ '', make sure to build the client first'')), app))
   \<and> (fs (path_resolve dirname ''public'') \<noteq> None \<longrightarrow>
        fst (serveStatic fs dirname app) = Inr ())"
  by (simp add: serveStatic_def existsSync_def Let_def)

text \<open>On an empty filesystem the message names \<open>/srv/public\<close>; with the example build
  directory in place the call returns.\<close>

theorem serveStatic_existence_check_witness:
  "serveStatic Map.empty [''srv''] [] =
     (Inl (Error ''Could not find the build directory: /srv/public, make sure to build the client first''), [])
   \<and> fst (serveStatic example_fs [''srv''] []) = Inr ()"
  using serveStatic_existence_check [of Map.empty "[''srv'']" "[]"]
    serveStatic_existence_check [of example_fs "[''srv'']" "[]"]
  by (simp add: path_resolve_def path_string_def example_fs_def)




section \<open>Order of the handlers\<close>



section \<open>Asset responses\<close>




text \<open>
  C3 does not hold of the code. \<open>index: false\<close> only stops the asset handler from
  answering a directory with its index file. \<open>GET /index.html\<close> names the entry document
  as a file like any other, and the asset handler serves it with the one-year immutable
  header.
\<close>

theorem index_html_served_immutable:
  "example_fs (path_resolve (path_resolve [''srv''] ''public'') ''index.html'')
     = Some (File ''<html>app</html>'' (etag_validators ''v1''))
   \<and> app_handle example_app example_fs (request_of ''GET'' ''/index.html'') =
       \<lparr>status = 200,
        headers = [''Cache-Control'' \<mapsto> ''public, max-age=31536000, immutable''],
        body = Bytes ''<html>app</html>''\<rparr>"
  by (simp add: example_defs model_defs show_nat_year)

section \<open>Fallback responses\<close>




text \<open>
  C9. However the fallback handler ends, the response object it leaves carries the three
  no-cache headers: they are set before \<open>res.sendFile\<close> looks for the entry document.
  When the entry document is missing the handler ends in \<open>next(err)\<close>, the response it
  hands on has the three headers, and the final handler keeps them.
\<close>

theorem fallback_headers_set_before_read:
  "headers (response_of (spa_fallback distPath fs req res)) ''Cache-Control''
       = Some ''no-cache, no-store, must-revalidate''
   \<and> headers (response_of (spa_fallback distPath fs req res)) ''Pragma'' = Some ''no-cache''
   \<and> headers (response_of (spa_fallback distPath fs req res)) ''Expires'' = Some ''0''
   \<and> (fs (path_resolve distPath ''index.html'') = None \<longrightarrow>
        (\<exists>e r. spa_fallback distPath fs req res = NextError e r
              \<and> headers r ''Cache-Control'' = Some ''no-cache, no-store, must-revalidate''
              \<and> headers r ''Pragma'' = Some ''no-cache''
              \<and> headers r ''Expires'' = Some ''0''
              \<and> headers (finalhandler (Some e) req r) = headers r))"
proof -
  have h: "headers (response_of (spa_fallback distPath fs req res)) = headers (no_cache res)"
    by (rule spa_fallback_response_headers)
  have "fs (path_resolve distPath ''index.html'') = None \<Longrightarrow>
        \<exists>e r. spa_fallback distPath fs req res = NextError e r
              \<and> headers r = headers (no_cache res)
              \<and> headers (finalhandler (Some e) req r) = headers r"
    using spa_fallback_missing [of fs distPath req res]
    by (auto simp: headers_finalhandler)
  with h show ?thesis
    by (auto simp: headers_no_cache)
qed

text \<open>On an empty filesystem the read fails and the headers are there all the same.\<close>

theorem fallback_headers_set_before_read_witness:
  "Map.empty (path_resolve [''srv'', ''public''] ''index.html'') = (None :: node option)
   \<and> (\<exists>e r. spa_fallback [''srv'', ''public''] Map.empty (request_of ''GET'' ''/dashboard'')
               new_response = NextError e r
           \<and> headers r ''Cache-Control'' = Some ''no-cache, no-store, must-revalidate''
           \<and> headers r ''Pragma'' = Some ''no-cache''
           \<and> headers r ''Expires'' = Some ''0''
           \<and> headers (finalhandler (Some e) (request_of ''GET'' ''/dashboard'') r) = headers r)"
  using fallback_headers_set_before_read
          [of "[''srv'', ''public'']" Map.empty "request_of ''GET'' ''/dashboard''" new_response]
  by simp




section \<open>A missing entry document\<close>



section \<open>Requests are handled independently\<close>





end
